theory Spec2Isabelle
  imports Main
begin

section \<open>JavaScript values and string primitives\<close>

text \<open>
  The pipeline works on values produced by \<open>JSON.parse\<close>. They are modelled by the
  datatype \<open>json\<close>; \<open>undefined\<close> (a missing property) is \<open>None\<close> of \<open>json option\<close>.
  Numbers are the integers, as the limits, years and counts the pipeline handles are;
  fractions and non-finite numbers are outside the model. Strings are lists of 8-bit
  characters, and the case conversions and character classes are the ASCII ones. An object
  is an association list read with \<open>map_of\<close>.
\<close>

datatype json =
    JNull
  | JBool bool
  | JNum int
  | JStr string
  | JArr "json list"
  | JObj "(string \<times> json) list"

text \<open>
  What the code throws. \<open>NotModelled\<close> marks the few inputs on which the behaviour of the
  JavaScript is not followed further (they are named where they arise).
\<close>

datatype js_error =
  TypeError | SyntaxError | CallError | IOError | ThrownError string | NotModelled

definition upperLetters :: string where
  "upperLetters = ''ABCDEFGHIJKLMNOPQRSTUVWXYZ''"

definition lowerLetters :: string where
  "lowerLetters = ''abcdefghijklmnopqrstuvwxyz''"

definition digitChars :: string where
  "digitChars = ''0123456789''"

definition lowerChar :: "char \<Rightarrow> char" where
  "lowerChar c = (case map_of (zip upperLetters lowerLetters) c of None \<Rightarrow> c | Some d \<Rightarrow> d)"

definition upperChar :: "char \<Rightarrow> char" where
  "upperChar c = (case map_of (zip lowerLetters upperLetters) c of None \<Rightarrow> c | Some d \<Rightarrow> d)"

definition toLowerCase :: "string \<Rightarrow> string" where
  "toLowerCase s = map lowerChar s"

definition toUpperCase :: "string \<Rightarrow> string" where
  "toUpperCase s = map upperChar s"

definition isDigit :: "char \<Rightarrow> bool" where
  "isDigit c = (c \<in> set digitChars)"

definition isLetter :: "char \<Rightarrow> bool" where
  "isLetter c = (c \<in> set lowerLetters \<or> c \<in> set upperLetters)"

text \<open>\<open>\w\<close> of a regular expression: letters, digits and the underscore.\<close>

definition isWordChar :: "char \<Rightarrow> bool" where
  "isWordChar c = (isLetter c \<or> isDigit c \<or> c = CHR ''_'')"

text \<open>\<open>\s\<close> and the characters \<open>trim\<close> removes: space, tab, LF, VT, FF, CR.\<close>

definition isSpace :: "char \<Rightarrow> bool" where
  "isSpace c = (c \<in> set [CHR '' '', CHR 0x09, CHR 0x0A, CHR 0x0B, CHR 0x0C, CHR 0x0D])"

fun startsWith :: "string \<Rightarrow> string \<Rightarrow> bool" where
  "startsWith s [] = True"
| "startsWith [] (p # ps) = False"
| "startsWith (c # cs) (p # ps) = (c = p \<and> startsWith cs ps)"

text \<open>\<open>s.includes(t)\<close>: \<open>t\<close> occurs in \<open>s\<close> as a contiguous substring.\<close>

fun includesStr :: "string \<Rightarrow> string \<Rightarrow> bool" where
  "includesStr [] t = (t = [])"
| "includesStr (c # cs) t = (startsWith (c # cs) t \<or> includesStr cs t)"


definition trim :: "string \<Rightarrow> string" where
  "trim s = rev (dropWhile isSpace (rev (dropWhile isSpace s)))"

definition digitVal :: "char \<Rightarrow> int" where
  "digitVal c = (case map_of (zip digitChars [0, 1, 2, 3, 4, 5, 6, 7, 8, 9]) c of
                   None \<Rightarrow> 0 | Some d \<Rightarrow> d)"

text \<open>The value of a string of decimal digits, most significant digit first.\<close>

definition digitsVal :: "string \<Rightarrow> int" where
  "digitsVal ds = foldl (\<lambda>acc c. 10 * acc + digitVal c) 0 ds"

text \<open>
  \<open>parseInt(s, 10)\<close>: leading white space is skipped, one sign is read, then the longest
  run of digits; \<open>None\<close> is \<open>NaN\<close>.
\<close>

definition parseInt :: "string \<Rightarrow> int option" where
  "parseInt s =
     (let t = dropWhile isSpace s;
          neg = (case t of [] \<Rightarrow> False | c # _ \<Rightarrow> c = CHR ''-'');
          u = (case t of [] \<Rightarrow> [] | c # r \<Rightarrow> if c = CHR ''-'' \<or> c = CHR ''+'' then r else t);
          ds = takeWhile isDigit u
      in if ds = [] then None
         else Some (if neg then - digitsVal ds else digitsVal ds))"

fun showNat :: "nat \<Rightarrow> string" where
  "showNat n =
     (if n < 10 then [digitChars ! n] else showNat (n div 10) @ [digitChars ! (n mod 10)])"

definition showInt :: "int \<Rightarrow> string" where
  "showInt i = (if i < 0 then CHR ''-'' # showNat (nat (- i)) else showNat (nat i))"

fun joinWith :: "string \<Rightarrow> string list \<Rightarrow> string" where
  "joinWith sep [] = []"
| "joinWith sep [x] = x"
| "joinWith sep (x # y # ys) = x @ sep @ joinWith sep (y # ys)"

text \<open>
  \<open>String(v)\<close> on a JSON value. An array is its elements joined by commas, \<open>null\<close>
  elements giving the empty string; an object is \<open>[object Object]\<close>.
\<close>

fun toStr :: "json \<Rightarrow> string" where
  "toStr JNull = ''null''"
| "toStr (JBool b) = (if b then ''true'' else ''false'')"
| "toStr (JNum n) = showInt n"
| "toStr (JStr s) = s"
| "toStr (JArr xs) = joinWith '','' (map (\<lambda>x. if x = JNull then [] else toStr x) xs)"
| "toStr (JObj kvs) = ''[object Object]''"

definition String :: "json option \<Rightarrow> string" where
  "String v = (case v of None \<Rightarrow> ''undefined'' | Some x \<Rightarrow> toStr x)"

text \<open>Truthiness: \<open>undefined\<close>, \<open>null\<close>, \<open>false\<close>, \<open>0\<close> and \<open>""\<close> are falsy.\<close>

fun truthy :: "json option \<Rightarrow> bool" where
  "truthy None = False"
| "truthy (Some JNull) = False"
| "truthy (Some (JBool b)) = b"
| "truthy (Some (JNum n)) = (n \<noteq> 0)"
| "truthy (Some (JStr s)) = (s \<noteq> [])"
| "truthy (Some (JArr xs)) = True"
| "truthy (Some (JObj kvs)) = True"

text \<open>\<open>a || b\<close> on values.\<close>

definition jsOr :: "json option \<Rightarrow> json option \<Rightarrow> json option" where
  "jsOr a b = (if truthy a then a else b)"

text \<open>
  \<open>v.k\<close> on a value that is not \<open>null\<close>: the own property of an object, \<open>undefined\<close>
  for the data properties this program reads on any other value.
\<close>

fun getProp :: "json \<Rightarrow> string \<Rightarrow> json option" where
  "getProp (JObj kvs) k = map_of kvs k"
| "getProp v k = None"

section \<open>Data-source detection (detectDataSource)\<close>

definition detectDataSource :: "string \<Rightarrow> string" where
  "detectDataSource intent =
     (let l = toLowerCase intent; has = includesStr l in
      if has ''movie'' \<or> has ''movies'' \<or> has ''film'' \<or> has ''films'' \<or> has ''cinema''
         \<or> (has ''browse'' \<and> has ''movie'')
         \<or> (has ''action'' \<and> (has ''movie'' \<or> has ''genre''))
         \<or> (has ''genre'' \<and> has ''movie'')
      then ''movies''
      else if has ''testimonial'' \<or> has ''testimonials''
         \<or> (has ''review'' \<and> \<not> has ''movie'')
         \<or> has ''customer feedback'' \<or> has ''customer review''
      then ''testimonials''
      else if has ''actor'' \<or> has ''actress'' \<or> has ''movie star'' \<or> has ''celebrity actor''
      then ''actors''
      else if has ''director'' \<or> has ''filmmaker'' \<or> has ''directed by''
      then ''directors''
      else if has ''company website'' \<or> has ''business website'' \<or> has ''our company''
         \<or> has ''our business'' \<or> has ''company's mission'' \<or> has ''company's vision''
         \<or> has ''our mission'' \<or> has ''our vision'' \<or> has ''our services''
         \<or> has ''company's services''
      then ''companies''
      else if (has ''company'' \<or> has ''business'' \<or> has ''corporate'')
         \<and> (has ''mission'' \<or> has ''vision'' \<or> has ''about'' \<or> has ''our'')
      then ''companies''
      else if (has '' product'' \<or> has ''products'') \<and> \<not> has ''movie'' \<and> \<not> has ''film''
      then (if has ''company'' \<or> has ''business''
            then (if has ''products for'' \<or> has ''show me products''
                  then ''products'' else ''companies'')
            else ''products'')
      else if has ''company'' \<or> has ''business'' \<or> has ''corporate'' \<or> has ''mission''
         \<or> has ''vision'' \<or> has ''about us''
      then ''companies''
      else if \<not> has ''movie'' \<and> \<not> has ''film''
         \<and> (has ''trial'' \<or> has ''sign up'' \<or> has ''software'' \<or> has ''app''
              \<or> has ''service'' \<or> has ''tool'')
      then ''products''
      else ''movies'')"

section \<open>Intent analysis (analyzeIntent)\<close>

text \<open>
  The model call, the stripping of code fences and \<open>JSON.parse\<close> are the environment of
  \<open>analyzeIntent\<close>: their joint outcome is the argument \<open>outcome\<close>, \<open>Inl\<close> when the call or
  the parse throws and \<open>Inr parsed\<close> when a value was parsed.
\<close>

record IntentAnalysisResult =
  dataSource :: string
  filters :: json
  limit :: int

definition validSources :: "string list" where
  "validSources =
     [''movies'', ''companies'', ''products'', ''actors'', ''directors'', ''testimonials'']"

text \<open>
  \<open>typeof parsed.limit === "number" && parsed.limit > 0 && parsed.limit <= 500
  ? parsed.limit : 100\<close>
\<close>

definition parsedLimit :: "json option \<Rightarrow> int" where
  "parsedLimit v =
     (case v of Some (JNum n) \<Rightarrow> if 0 < n \<and> n \<le> 500 then n else 100 | _ \<Rightarrow> 100)"

text \<open>The two corrections of the limit, in the order of the source.\<close>

definition adjustLimit :: "string \<Rightarrow> int \<Rightarrow> int" where
  "adjustLimit userIntentLower lim0 =
     (let has = includesStr userIntentLower;
          lim1 = (if (has ''all'' \<or> has ''all data'' \<or> has ''all companies''
                      \<or> has ''all products'' \<or> has ''show all'' \<or> has ''all services'')
                     \<and> lim0 < 50
                  then 100 else lim0)
      in if lim1 = 1 \<and> \<not> has ''one'' \<and> \<not> has ''single'' \<and> \<not> has ''just one''
         then 100 else lim1)"

text \<open>\<open>parsed.filters && typeof parsed.filters === "object" ? parsed.filters : {}\<close>\<close>

definition parsedFilters :: "json option \<Rightarrow> json" where
  "parsedFilters v =
     (case v of Some (JObj kvs) \<Rightarrow> JObj kvs | Some (JArr xs) \<Rightarrow> JArr xs | _ \<Rightarrow> JObj [])"

text \<open>\<open>delete o.k\<close>\<close>

fun deleteProp :: "json \<Rightarrow> string \<Rightarrow> json" where
  "deleteProp (JObj kvs) k = JObj (filter (\<lambda>kv. fst kv \<noteq> k) kvs)"
| "deleteProp v k = v"

text \<open>A location the request text does not support is removed from the filters.\<close>

definition dropUnmentionedLocation :: "string \<Rightarrow> json \<Rightarrow> json" where
  "dropUnmentionedLocation userIntent flt =
     (if truthy (getProp flt ''location'')
      then (let userIntentLower = toLowerCase userIntent;
                locationValue = toLowerCase (String (getProp flt ''location''));
                hasLocationKeywords =
                  (includesStr userIntentLower ''in '' \<or> includesStr userIntentLower ''from ''
                   \<or> includesStr userIntentLower ''located''
                   \<or> includesStr userIntentLower ''at '')
            in if \<not> includesStr userIntentLower locationValue \<and> \<not> hasLocationKeywords
               then deleteProp flt ''location'' else flt)
      else flt)"

text \<open>
  The body of the \<open>try\<close> block after \<open>JSON.parse\<close>. Reading a property of \<open>null\<close>
  throws a TypeError; every other parsed value goes through.
\<close>

definition analyzeParsed :: "string \<Rightarrow> json \<Rightarrow> js_error + IntentAnalysisResult" where
  "analyzeParsed userIntent parsed =
     (if parsed = JNull then Inl TypeError
      else (let flt = parsedFilters (getProp parsed ''filters'');
                lim = adjustLimit (toLowerCase userIntent) (parsedLimit (getProp parsed ''limit''));
                src = (case getProp parsed ''dataSource'' of
                         Some (JStr s) \<Rightarrow> if s \<in> set validSources then s
                                          else detectDataSource userIntent
                       | _ \<Rightarrow> detectDataSource userIntent)
            in Inr \<lparr> dataSource = src,
                     filters = dropUnmentionedLocation userIntent flt,
                     limit = lim \<rparr>))"

subsection \<open>The heuristic fallback\<close>

text \<open>
  \<open>/\b(19|20)\d{2}\b/\<close>: the pattern at the front of \<open>s\<close>, the leading \<open>\b\<close> apart.
  The trailing \<open>\b\<close> holds when the text ends or goes on with a non-word character.
\<close>

fun yearTokenHere :: "string \<Rightarrow> bool" where
  "yearTokenHere (a # b # c # d # rest) =
     (((a = CHR ''1'' \<and> b = CHR ''9'') \<or> (a = CHR ''2'' \<and> b = CHR ''0''))
      \<and> isDigit c \<and> isDigit d
      \<and> (case rest of [] \<Rightarrow> True | e # _ \<Rightarrow> \<not> isWordChar e))"
| "yearTokenHere s = False"

text \<open>
  The scan of \<open>String.prototype.match\<close>: positions are tried from the left;
  \<open>prevWord\<close> tells whether the character before the position is a word character,
  which decides the leading \<open>\b\<close>. The result is the matched text.
\<close>

fun yearScan :: "bool \<Rightarrow> string \<Rightarrow> string option" where
  "yearScan prevWord [] = None"
| "yearScan prevWord (c # cs) =
     (if \<not> prevWord \<and> yearTokenHere (c # cs) then Some (take 4 (c # cs))
      else yearScan (isWordChar c) cs)"

definition yearMatch :: "string \<Rightarrow> string option" where
  "yearMatch s = yearScan False s"

definition genres :: "string list" where
  "genres = [''action'', ''sci-fi'', ''science fiction'', ''drama'', ''comedy'', ''horror'']"

definition detectGenre :: "string \<Rightarrow> string option" where
  "detectGenre intent =
     (case filter (includesStr intent) genres of
        [] \<Rightarrow> None
      | g # _ \<Rightarrow> Some (if g = ''science fiction'' then ''sci-fi'' else g))"

text \<open>The first result of a list of attempts, as a regular expression tries alternatives.\<close>

fun firstSome :: "'a option list \<Rightarrow> 'a option" where
  "firstSome [] = None"
| "firstSome (None # xs) = firstSome xs"
| "firstSome (Some x # xs) = Some x"

text \<open>A match is looked for at every position from the left, the end included.\<close>

fun scanFirst :: "(string \<Rightarrow> 'a option) \<Rightarrow> string \<Rightarrow> 'a option" where
  "scanFirst f [] = f []"
| "scanFirst f (c # cs) = (case f (c # cs) of Some r \<Rightarrow> Some r | None \<Rightarrow> scanFirst f cs)"

text \<open>A literal of a case-insensitive pattern at the front of \<open>s\<close>; \<open>k\<close> is in lower case.\<close>

definition startsWithCI :: "string \<Rightarrow> string \<Rightarrow> bool" where
  "startsWithCI s k = (length k \<le> length s \<and> toLowerCase (take (length k) s) = k)"

text \<open>
  \<open>[A-Z][a-z]+\<close> under the flag \<open>i\<close>: a greedy run of at least two letters. What
  follows it in the pattern is optional, so the longest run is the one matched.
\<close>

definition wordAt :: "string \<Rightarrow> (string \<times> string) option" where
  "wordAt s =
     (let w = takeWhile isLetter s
      in if 2 \<le> length w then Some (w, dropWhile isLetter s) else None)"

text \<open>\<open>(?:\s+[A-Z][a-z]+)?\<close>: the text matched and the rest, \<open>None\<close> when skipped.\<close>

definition optWord :: "string \<Rightarrow> (string \<times> string) option" where
  "optWord s =
     (let ws = takeWhile isSpace s
      in if ws = [] then None
         else (case wordAt (dropWhile isSpace s) of
                 None \<Rightarrow> None
               | Some (w, r) \<Rightarrow> Some (ws @ w, r)))"

text \<open>\<open>(?:\s*,\s*[A-Z][a-z]+)?\<close>\<close>

definition optCommaWord :: "string \<Rightarrow> (string \<times> string) option" where
  "optCommaWord s =
     (let ws1 = takeWhile isSpace s
      in (case dropWhile isSpace s of
            [] \<Rightarrow> None
          | c # r \<Rightarrow>
              if c = CHR '','' then
                (let ws2 = takeWhile isSpace r
                 in (case wordAt (dropWhile isSpace r) of
                       None \<Rightarrow> None
                     | Some (w, r') \<Rightarrow> Some (ws1 @ [c] @ ws2 @ w, r')))
              else None))"

text \<open>
  \<open>/(?:in|from|at|located in)\s+([A-Z][a-z]+(?:\s+[A-Z][a-z]+)?(?:\s*,\s*[A-Z][a-z]+)?)/i\<close>
  at the front of \<open>s\<close>; the result is group 1.
\<close>

definition locationAfter :: "string \<Rightarrow> string option" where
  "locationAfter r0 =
     (if takeWhile isSpace r0 = [] then None
      else (case wordAt (dropWhile isSpace r0) of
              None \<Rightarrow> None
            | Some (w1, r1) \<Rightarrow>
                (let (a, r2) = (case optWord r1 of None \<Rightarrow> ([], r1) | Some x \<Rightarrow> x);
                     (b, r3) = (case optCommaWord r2 of None \<Rightarrow> ([], r2) | Some x \<Rightarrow> x)
                 in Some (w1 @ a @ b))))"

definition locationPattern1 :: "string \<Rightarrow> string option" where
  "locationPattern1 s =
     firstSome (map (\<lambda>k. if startsWithCI s k then locationAfter (drop (length k) s) else None)
                    [''in'', ''from'', ''at'', ''located in''])"

definition cities :: "string list" where
  "cities = [''delhi'', ''mumbai'', ''bangalore'', ''pune'', ''hyderabad'', ''chennai'',
             ''kolkata'', ''new york'', ''san francisco'', ''london'', ''paris'']"

text \<open>\<open>/(Delhi|Mumbai|...|Paris)/i\<close> at the front of \<open>s\<close>.\<close>

definition locationPattern2 :: "string \<Rightarrow> string option" where
  "locationPattern2 s =
     firstSome (map (\<lambda>k. if startsWithCI s k then Some (take (length k) s) else None) cities)"

definition detectLocation :: "string \<Rightarrow> string option" where
  "detectLocation intent =
     (case scanFirst locationPattern1 intent of
        Some m \<Rightarrow> Some m
      | None \<Rightarrow> scanFirst locationPattern2 intent)"

text \<open>The \<open>catch\<close> block of \<open>analyzeIntent\<close>.\<close>

definition fallbackAnalysis :: "string \<Rightarrow> IntentAnalysisResult" where
  "fallbackAnalysis userIntent =
     (let intent = toLowerCase userIntent;
          year = (case yearMatch intent of None \<Rightarrow> None | Some m \<Rightarrow> parseInt m);
          genre = detectGenre intent;
          location = detectLocation intent
      in \<lparr> dataSource = detectDataSource userIntent,
           filters = JObj
             ((case year of None \<Rightarrow> [] | Some y \<Rightarrow> if y \<noteq> 0 then [(''year'', JNum y)] else [])
              @ (case genre of None \<Rightarrow> [] | Some g \<Rightarrow> if g \<noteq> [] then [(''genre'', JStr g)] else [])
              @ (case location of None \<Rightarrow> []
                 | Some l \<Rightarrow> if l \<noteq> [] then [(''location'', JStr l)] else [])),
           limit = 100 \<rparr>)"

definition analyzeIntent :: "string \<Rightarrow> js_error + json \<Rightarrow> IntentAnalysisResult" where
  "analyzeIntent userIntent outcome =
     (case outcome of
        Inl e \<Rightarrow> fallbackAnalysis userIntent
      | Inr parsed \<Rightarrow>
          (case analyzeParsed userIntent parsed of
             Inl e \<Rightarrow> fallbackAnalysis userIntent
           | Inr r \<Rightarrow> r))"






section \<open>Data-source verification (verifyDataSource)\<close>

text \<open>
  A model response is the list of its content blocks, each a type and a text. The outcome
  of the call is \<open>Inl\<close> when \<open>client.messages.create\<close> throws.
\<close>

type_synonym message = "(string \<times> string) list"

text \<open>\<open>msg.content[0]?.type === "text" ? msg.content[0].text.trim() : ""\<close>\<close>

definition responseText :: "message \<Rightarrow> string" where
  "responseText content =
     (case content of
        [] \<Rightarrow> []
      | (ty, tx) # rest \<Rightarrow> if ty = ''text'' then trim tx else [])"

definition verifyDataSource ::
  "string \<Rightarrow> string \<Rightarrow> string list \<Rightarrow> js_error + message \<Rightarrow> string" where
  "verifyDataSource detectedSource userIntent availableSources outcome =
     (case outcome of
        Inl e \<Rightarrow> detectedSource
      | Inr content \<Rightarrow>
          (let text = responseText content in
           if includesStr (toUpperCase text) ''CORRECT''
              \<or> toLowerCase text = toLowerCase detectedSource
           then detectedSource
           else (case filter (\<lambda>source. includesStr (toLowerCase text) (toLowerCase source))
                        availableSources of
                   [] \<Rightarrow> detectedSource
                 | source # rest \<Rightarrow> source)))"


section \<open>Loading and filtering a collection (loadData, filterData)\<close>

text \<open>
  A record of a collection is an object. A data file is given by what \<open>JSON.parse\<close> makes
  of its text: a syntax error, a value that is not an array, or an array of records. The
  data root maps a file name to the file, \<open>None\<close> when the file does not exist.
\<close>

type_synonym DataItem = "(string \<times> json) list"

datatype dataFile = Unparsable | NonArray | Records "DataItem list"

type_synonym dataRoot = "string \<Rightarrow> dataFile option"

text \<open>
  The fallback to \<open>movies.json\<close> returns what was parsed without the array test; a
  fallback file that is not an array is \<open>NotModelled\<close>.
\<close>

definition loadData :: "string \<Rightarrow> dataRoot \<Rightarrow> js_error + DataItem list" where
  "loadData src root =
     (case root (src @ ''.json'') of
        None \<Rightarrow>
          (case root ''movies.json'' of
             None \<Rightarrow> Inr []
           | Some Unparsable \<Rightarrow> Inl SyntaxError
           | Some NonArray \<Rightarrow> Inl NotModelled
           | Some (Records xs) \<Rightarrow> Inr xs)
      | Some Unparsable \<Rightarrow> Inl SyntaxError
      | Some NonArray \<Rightarrow> Inr []
      | Some (Records xs) \<Rightarrow> Inr xs)"

text \<open>\<open>String(v || "").toLowerCase().includes(needle)\<close>\<close>

definition textHas :: "json option \<Rightarrow> string \<Rightarrow> bool" where
  "textHas v needle = includesStr (toLowerCase (String (jsOr v (Some (JStr []))))) needle"

text \<open>
  The year filter: \<open>parseInt(String(item.Year || item.year || "").slice(0, 4), 10) === year\<close>.
  Strict equality with a year that is not a number is false.
\<close>

definition yearIs :: "json \<Rightarrow> DataItem \<Rightarrow> bool" where
  "yearIs year item =
     (case parseInt (take 4 (String (jsOr (jsOr (map_of item ''Year'') (map_of item ''year''))
                                          (Some (JStr []))))) of
        None \<Rightarrow> False
      | Some n \<Rightarrow> year = JNum n)"

text \<open>
  A filter whose value must be a string because \<open>toLowerCase\<close> or \<open>trim\<close> is called on
  it: skipped when the value is falsy, a TypeError when it is truthy and not a string.
\<close>

definition stringFilter ::
  "json option \<Rightarrow> (string \<Rightarrow> DataItem list \<Rightarrow> DataItem list) \<Rightarrow> DataItem list
   \<Rightarrow> js_error + DataItem list" where
  "stringFilter v f xs =
     (if \<not> truthy v then Inr xs
      else (case v of Some (JStr s) \<Rightarrow> Inr (f s xs) | _ \<Rightarrow> Inl TypeError))"

text \<open>The personas filter of the products: \<open>item.personas || []\<close>, an array or not.\<close>

definition personasHas :: "string \<Rightarrow> DataItem \<Rightarrow> bool" where
  "personasHas personasFilter item =
     (case jsOr (map_of item ''personas'') (Some (JArr [])) of
        Some (JArr ps) \<Rightarrow> list_ex (\<lambda>p. includesStr (toLowerCase (toStr p)) personasFilter) ps
      | v \<Rightarrow> includesStr (toLowerCase (String v)) personasFilter)"

text \<open>\<open>Array.isArray(v) ? v : [v]\<close>\<close>

definition asArray :: "json option \<Rightarrow> json list" where
  "asArray v = (case v of Some (JArr xs) \<Rightarrow> xs | Some x \<Rightarrow> [x] | None \<Rightarrow> [])"

text \<open>An element of \<open>Array.prototype.join\<close>: \<open>null\<close> gives the empty string.\<close>

definition joinElem :: "json \<Rightarrow> string" where
  "joinElem x = (if x = JNull then [] else toStr x)"

definition businessText :: "DataItem \<Rightarrow> bool" where
  "businessText item =
     (let personas = jsOr (map_of item ''personas'') (Some (JArr []));
          useCases = jsOr (map_of item ''useCases'') (Some (JArr []));
          allText = toLowerCase (joinWith '' '' (map joinElem (asArray personas @ asArray useCases)))
      in includesStr allText ''business'')"

text \<open>
  \<open>itemValue === value\<close> for a filter value that is not a string, \<open>null\<close> or
  \<open>undefined\<close>: numbers and booleans compare by value, two parsed arrays or objects are
  never the same object.
\<close>

fun strictEq :: "json option \<Rightarrow> json \<Rightarrow> bool" where
  "strictEq (Some (JNum a)) (JNum b) = (a = b)"
| "strictEq (Some (JBool a)) (JBool b) = (a = b)"
| "strictEq v w = False"

text \<open>One declared filter, the body of \<open>Object.keys(otherFilters).forEach\<close>.\<close>

definition declaredFilter :: "DataItem \<Rightarrow> string \<Rightarrow> DataItem list \<Rightarrow> DataItem list" where
  "declaredFilter otherFilters key xs =
     (case map_of otherFilters key of
        None \<Rightarrow> xs
      | Some JNull \<Rightarrow> xs
      | Some (JStr s) \<Rightarrow> filter (\<lambda>item. textHas (map_of item key) (toLowerCase s)) xs
      | Some value \<Rightarrow> filter (\<lambda>item. strictEq (map_of item key) value) xs)"

text \<open>
  The destructuring of \<open>filterData\<close> spreads \<open>filters\<close> last, so \<open>year\<close>, \<open>genre\<close>,
  \<open>location\<close>, \<open>category\<close> and \<open>limit\<close> are the properties of \<open>filters\<close> as they are,
  and \<open>otherFilters\<close> is \<open>filters\<close> without these five keys.
\<close>

definition otherFiltersOf :: "DataItem \<Rightarrow> DataItem" where
  "otherFiltersOf flt =
     filter (\<lambda>kv. fst kv \<notin> set [''year'', ''genre'', ''location'', ''category'', ''limit'']) flt"

text \<open>The filters of each collection, in the order of the source.\<close>

definition moviesFilters :: "DataItem \<Rightarrow> DataItem list \<Rightarrow> js_error + DataItem list" where
  "moviesFilters flt xs =
     (let ys = (case map_of flt ''year'' of
                  Some year \<Rightarrow> if truthy (Some year) then filter (yearIs year) xs else xs
                | None \<Rightarrow> xs)
      in stringFilter (map_of flt ''genre'')
           (\<lambda>genre. filter (\<lambda>item.
              textHas (jsOr (map_of item ''Genre'') (map_of item ''genre'')) (toLowerCase genre)))
           ys)"

definition companiesFilters :: "DataItem \<Rightarrow> DataItem list \<Rightarrow> js_error + DataItem list" where
  "companiesFilters flt xs =
     (case stringFilter (map_of flt ''location'')
             (\<lambda>location ys. if trim location \<noteq> []
                then filter (\<lambda>item. textHas (map_of item ''location'')
                                      (trim (toLowerCase location))) ys
                else ys) xs of
        Inl e \<Rightarrow> Inl e
      | Inr ys \<Rightarrow>
          Inr (case map_of (otherFiltersOf flt) ''industry'' of
                 Some (JStr industry) \<Rightarrow>
                   if industry \<noteq> []
                   then filter (\<lambda>item. textHas (map_of item ''industry'') (toLowerCase industry)) ys
                   else ys
               | _ \<Rightarrow> ys))"

definition productsFilters :: "DataItem \<Rightarrow> DataItem list \<Rightarrow> js_error + DataItem list" where
  "productsFilters flt xs =
     (case stringFilter (map_of flt ''category'')
             (\<lambda>category. filter (\<lambda>item. textHas (map_of item ''category'') (toLowerCase category)))
             xs of
        Inl e \<Rightarrow> Inl e
      | Inr ys \<Rightarrow>
          (let personas = map_of flt ''personas'';
               zs = (if truthy personas
                     then filter (personasHas (toLowerCase (String personas))) ys else ys);
               business = (truthy (map_of flt ''business'')
                           \<or> (case personas of
                                 Some (JStr p) \<Rightarrow> includesStr (toLowerCase p) ''business''
                               | _ \<Rightarrow> False))
           in Inr (if business then filter businessText zs else zs)))"

definition peopleFilters :: "DataItem \<Rightarrow> DataItem list \<Rightarrow> js_error + DataItem list" where
  "peopleFilters flt xs =
     stringFilter (map_of flt ''location'')
       (\<lambda>location. filter (\<lambda>item. textHas (map_of item ''location'') (toLowerCase location)))
       xs"

text \<open>
  The filter stage of \<open>filterData\<close>: the filters of the collection, then every declared
  filter, before the limit is applied.
\<close>

definition applyFilters :: "string \<Rightarrow> DataItem \<Rightarrow> DataItem list \<Rightarrow> js_error + DataItem list" where
  "applyFilters src flt allData =
     (case (if src = ''movies'' then moviesFilters flt allData
            else if src = ''companies'' then companiesFilters flt allData
            else if src = ''products'' then productsFilters flt allData
            else if src = ''actors'' \<or> src = ''directors'' then peopleFilters flt allData
            else Inr allData) of
        Inl e \<Rightarrow> Inl e
      | Inr xs \<Rightarrow>
          Inr (foldl (\<lambda>ys key. declaredFilter (otherFiltersOf flt) key ys) xs
                     (remdups (map fst (otherFiltersOf flt)))))"

text \<open>
  \<open>xs.slice(0, n)\<close> for an integer \<open>n\<close>: a negative end counts from the end of the array.
\<close>

definition slice0 :: "'a list \<Rightarrow> int \<Rightarrow> 'a list" where
  "slice0 xs n = (if n < 0 then take (nat (int (length xs) + n)) xs else take (nat n) xs)"

text \<open>
  \<open>if (limit && filtered.length > limit) filtered = filtered.slice(0, limit)\<close>. The callers
  pass a number; a truthy limit that is not a number is \<open>NotModelled\<close>.
\<close>

definition applyLimit :: "json option \<Rightarrow> DataItem list \<Rightarrow> js_error + DataItem list" where
  "applyLimit lim xs =
     (if \<not> truthy lim then Inr xs
      else (case lim of
              Some (JNum n) \<Rightarrow> Inr (if int (length xs) > n then slice0 xs n else xs)
            | _ \<Rightarrow> Inl NotModelled))"

text \<open>\<open>limit || 100\<close> for a limit that is falsy or a number.\<close>

definition limitOr100 :: "json option \<Rightarrow> int" where
  "limitOr100 lim = (case lim of Some (JNum n) \<Rightarrow> if n \<noteq> 0 then n else 100 | _ \<Rightarrow> 100)"

definition filterData :: "string \<Rightarrow> DataItem \<Rightarrow> dataRoot \<Rightarrow> js_error + DataItem list" where
  "filterData src flt root =
     (case loadData src root of
        Inl e \<Rightarrow> Inl e
      | Inr allData \<Rightarrow>
          (case applyFilters src flt allData of
             Inl e \<Rightarrow> Inl e
           | Inr matched \<Rightarrow>
               (case applyLimit (map_of flt ''limit'') matched of
                  Inl e \<Rightarrow> Inl e
                | Inr filtered \<Rightarrow>
                    if filtered = [] \<and> allData \<noteq> []
                    then Inr (slice0 allData (limitOr100 (map_of flt ''limit'')))
                    else Inr filtered)))"


text \<open>A small data root, used to run the filter on concrete input.\<close>

definition exampleMovies :: "DataItem list" where
  "exampleMovies =
     [ [(''Title'', JStr ''Heat''), (''Year'', JStr ''1995''), (''Genre'', JStr ''Action, Crime'')],
      [(''Title'', JStr ''Clue''), (''year'', JNum 1985), (''genre'', JStr ''Comedy'')],
      [(''Title'', JStr ''Ronin''), (''Year'', JNum 1998), (''Genre'', JStr ''Action'')] ]"

definition exampleRoot :: dataRoot where
  "exampleRoot = (\<lambda>f. if f = ''movies.json'' then Some (Records exampleMovies) else None)"


section \<open>Architecture planning (planArchitecture)\<close>

datatype fileKind = Page | Asset | Script | Style | Data

record PlannedFile =
  fileName :: string
  purpose :: string
  kind :: fileKind

record ArchitecturePlan =
  files :: "PlannedFile list"















definition indexPurpose :: string where
  "indexPurpose = ''Home/landing page listing content with search and filters''"

definition appPurpose :: string where
  "appPurpose = ''Client-side interactions, search, filters, and data rendering''"


definition minimalPlan :: ArchitecturePlan where
  "minimalPlan =
     \<lparr> files = [\<lparr> fileName = ''index.html'', purpose = indexPurpose, kind = Page \<rparr>,
                 \<lparr> fileName = ''app.js'', purpose = appPurpose, kind = Script \<rparr>] \<rparr>"






section \<open>Deployment (deployToVercel)\<close>



type_synonym fileSystem = "string \<Rightarrow> string option"

text \<open>\<open>path.join(dir, name)\<close> for a plain file name.\<close>

definition pathJoin :: "string \<Rightarrow> string \<Rightarrow> string" where
  "pathJoin dir name = dir @ ''/'' @ name"



text \<open>\<open>[a-z0-9-]\<close> under the flag \<open>i\<close>.\<close>

definition isLabelChar :: "char \<Rightarrow> bool" where
  "isLabelChar c = (isLetter c \<or> isDigit c \<or> c = CHR ''-'')"

text \<open>
  \<open>/https?:\/\/[a-z0-9-]+\.vercel\.(app|com)/i\<close> at the front of \<open>s\<close>: the length of
  the match. The label is the longest run of label characters, since a dot must follow it.
\<close>

definition hostAfter :: "string \<Rightarrow> nat option" where
  "hostAfter r =
     (let label = takeWhile isLabelChar r; r1 = dropWhile isLabelChar r in
      if label \<noteq> [] \<and> startsWithCI r1 ''.vercel.''
         \<and> (startsWithCI (drop 8 r1) ''app'' \<or> startsWithCI (drop 8 r1) ''com'')
      then Some (length label + 11) else None)"

definition baseUrlAt :: "string \<Rightarrow> nat option" where
  "baseUrlAt s =
     firstSome (map (\<lambda>p. if startsWithCI s p
                           then map_option (\<lambda>n. length p + n) (hostAfter (drop (length p) s))
                           else None)
                    [''https://'', ''http://''])"

text \<open>The lookahead \<open>(?=[\s\n\r\)\]\}\"\'\,\.]|$)\<close> on the rest of the text.\<close>

definition urlEndsHere :: "string \<Rightarrow> bool" where
  "urlEndsHere r =
     (case r of
        [] \<Rightarrow> True
      | c # _ \<Rightarrow> isSpace c \<or> c \<in> set [CHR '')'', CHR '']'', CHR ''}'', CHR 0x22, CHR 0x27,
                                        CHR '','', CHR ''.''])"

text \<open>The anchored pattern at the front of \<open>s\<close>: the matched text.\<close>

definition anchoredUrlAt :: "string \<Rightarrow> string option" where
  "anchoredUrlAt s =
     (case baseUrlAt s of
        None \<Rightarrow> None
      | Some n \<Rightarrow> if urlEndsHere (drop n s) then Some (take n s) else None)"














section \<open>Validation and repair (validateAndFixWebsite)\<close>

record ValidationResult =
  hasIssues :: bool
  issues :: "json list"
  fixedFiles :: "string list"

text \<open>A line terminator, for \<open>^\<close> and \<open>$\<close> under the flag \<open>m\<close>.\<close>

definition isLineTerminator :: "char \<Rightarrow> bool" where
  "isLineTerminator c = (c = CHR 0x0A \<or> c = CHR 0x0D)"

text \<open>
  \<open>/^```[\w]*\n?/\<close> at the front of \<open>s\<close>, the \<open>^\<close> apart: the length of the match.
\<close>

definition openFenceAt :: "string \<Rightarrow> nat option" where
  "openFenceAt s =
     (if startsWith s ''```''
      then (let w = takeWhile isWordChar (drop 3 s)
            in Some (3 + length w
                     + (if startsWith (drop (3 + length w) s) [CHR 0x0A] then 1 else 0)))
      else None)"

text \<open>
  \<open>s.replace(/^```[\w]*\n?/gm, "")\<close>: \<open>atStart\<close> tells whether the position is the
  start of a line, \<open>skip\<close> counts the characters of a match still to remove.
\<close>

fun stripOpenFences :: "bool \<Rightarrow> nat \<Rightarrow> string \<Rightarrow> string" where
  "stripOpenFences atStart skip [] = []"
| "stripOpenFences atStart skip (c # cs) =
     (if 0 < skip then stripOpenFences (isLineTerminator c) (skip - 1) cs
      else (case (if atStart then openFenceAt (c # cs) else None) of
              Some n \<Rightarrow> stripOpenFences (isLineTerminator c) (n - 1) cs
            | None \<Rightarrow> c # stripOpenFences (isLineTerminator c) 0 cs))"

text \<open>\<open>$\<close> under the flag \<open>m\<close>: the text ends or a line terminator follows.\<close>

definition atLineEnd :: "string \<Rightarrow> bool" where
  "atLineEnd r = (case r of [] \<Rightarrow> True | c # _ \<Rightarrow> isLineTerminator c)"

text \<open>\<open>/\n?```$/m\<close> at the front of \<open>s\<close>: the length of the match.\<close>

definition closeFenceAt :: "string \<Rightarrow> nat option" where
  "closeFenceAt s =
     (if startsWith s (CHR 0x0A # ''```'') \<and> atLineEnd (drop 4 s) then Some 4
      else if startsWith s ''```'' \<and> atLineEnd (drop 3 s) then Some 3
      else None)"

fun stripCloseFences :: "nat \<Rightarrow> string \<Rightarrow> string" where
  "stripCloseFences skip [] = []"
| "stripCloseFences skip (c # cs) =
     (if 0 < skip then stripCloseFences (skip - 1) cs
      else (case closeFenceAt (c # cs) of
              Some n \<Rightarrow> stripCloseFences (n - 1) cs
            | None \<Rightarrow> c # stripCloseFences 0 cs))"

text \<open>
  The cleaning of a reply that is to be saved as a file: trimmed, and with the code fences
  removed when it contains one.
\<close>

definition cleanCode :: "string \<Rightarrow> string" where
  "cleanCode code =
     (let c = trim code
      in if includesStr c ''```''
         then trim (stripCloseFences 0 (stripOpenFences True 0 c))
         else c)"

text \<open>\<open>msg.content[0]?.type === "text" ? msg.content[0].text : ""\<close>\<close>

definition firstText :: "message \<Rightarrow> string" where
  "firstText content =
     (case content of
        [] \<Rightarrow> []
      | (ty, tx) # rest \<Rightarrow> if ty = ''text'' then tx else [])"

text \<open>
  The environment of the validator: the outcome of the review call together with the
  parse of its reply (\<open>Inl\<close> when the call or \<open>JSON.parse\<close> throws), the outcome of the
  fix calls in the order they are made, and the paths \<open>writeFileSync\<close> fails on.
\<close>

record validatorEnv =
  reviewOutcome :: "js_error + json"
  fixOutcome :: "nat \<Rightarrow> js_error + message"
  writeFails :: "string \<Rightarrow> bool"

text \<open>
  The state of the loop over the issues: the number of fix calls made, the file system and
  the names of the files fixed.
\<close>

type_synonym fixState = "nat \<times> fileSystem \<times> string list"

text \<open>
  The loop over the issues. Only an issue of severity \<open>error\<close> that names a generated
  file is repaired. The result is the error raised, if any, and the state reached. The
  checks of the HTML structure only log a warning and are left out.
\<close>

fun fixLoop ::
  "validatorEnv \<Rightarrow> string \<Rightarrow> string list \<Rightarrow> json list \<Rightarrow> fixState
   \<Rightarrow> js_error option \<times> fixState" where
  "fixLoop env projectDir names [] st = (None, st)"
| "fixLoop env projectDir names (issue # rest) (k, fs, fixed) =
     (if issue = JNull then (Some TypeError, (k, fs, fixed))
      else if getProp issue ''severity'' \<noteq> Some (JStr ''error'')
      then fixLoop env projectDir names rest (k, fs, fixed)
      else (case getProp issue ''fileName'' of
              Some (JStr name) \<Rightarrow>
                if name \<notin> set names then fixLoop env projectDir names rest (k, fs, fixed)
                else (case getProp issue ''issue'' of
                        Some (JStr description) \<Rightarrow>
                          (case fixOutcome env k of
                             Inl e \<Rightarrow> (Some e, (k, fs, fixed))
                           | Inr fixMsg \<Rightarrow>
                               if writeFails env (pathJoin projectDir name)
                               then (Some IOError, (Suc k, fs, fixed))
                               else fixLoop env projectDir names rest
                                      (Suc k,
                                       fs(pathJoin projectDir name
                                            \<mapsto> cleanCode (firstText fixMsg)),
                                       fixed @ [name]))
                      | _ \<Rightarrow> (Some TypeError, (k, fs, fixed)))
            | _ \<Rightarrow> fixLoop env projectDir names rest (k, fs, fixed)))"

definition noIssues :: ValidationResult where
  "noIssues = \<lparr> hasIssues = False, issues = [], fixedFiles = [] \<rparr>"

text \<open>
  \<open>validateAndFixWebsite\<close>, from the \<open>try\<close> on: the result and the file system it leaves.
  A file written before an exception stays written.
\<close>

definition validateAndFixWebsite ::
  "validatorEnv \<Rightarrow> string \<Rightarrow> PlannedFile list \<Rightarrow> fileSystem \<Rightarrow> ValidationResult \<times> fileSystem" where
  "validateAndFixWebsite env projectDir generatedFiles fs =
     (case reviewOutcome env of
        Inl e \<Rightarrow> (noIssues, fs)
      | Inr (JArr found) \<Rightarrow>
          (case fixLoop env projectDir (map fileName generatedFiles) found (0, fs, []) of
             (Some e, (k, fs', fixed)) \<Rightarrow> (noIssues, fs')
           | (None, (k, fs', fixed)) \<Rightarrow>
               (\<lparr> hasIssues = (found \<noteq> []), issues = found, fixedFiles = fixed \<rparr>, fs'))
      | Inr other \<Rightarrow> (noIssues, fs))"

text \<open>An issue the loop repairs: severity \<open>error\<close>, naming the generated file \<open>name\<close>.\<close>

definition repairs :: "string list \<Rightarrow> json \<Rightarrow> string \<Rightarrow> bool" where
  "repairs names issue name =
     (issue \<noteq> JNull \<and> getProp issue ''severity'' = Some (JStr ''error'')
      \<and> getProp issue ''fileName'' = Some (JStr name) \<and> name \<in> set names)"


text \<open>An issue, as the review reports it, and environments in which a step throws.\<close>

definition exampleIssue :: json where
  "exampleIssue =
     JObj [(''fileName'', JStr ''app.js''),
           (''issue'', JStr ''File wrapped in markdown code fences''),
           (''severity'', JStr ''error''),
           (''fix'', JStr ''Remove the code fences'')]"

definition reviewThrows :: validatorEnv where
  "reviewThrows =
     \<lparr> reviewOutcome = Inl CallError,
       fixOutcome = (\<lambda>k. Inr [(''text'', ''render();'')]),
       writeFails = (\<lambda>p. False) \<rparr>"

definition fixThrows :: validatorEnv where
  "fixThrows =
     \<lparr> reviewOutcome = Inr (JArr [exampleIssue]),
       fixOutcome = (\<lambda>k. Inl CallError),
       writeFails = (\<lambda>p. False) \<rparr>"

definition writeThrows :: validatorEnv where
  "writeThrows =
     \<lparr> reviewOutcome = Inr (JArr [exampleIssue]),
       fixOutcome = (\<lambda>k. Inr [(''text'', ''render();'')]),
       writeFails = (\<lambda>p. True) \<rparr>"


section \<open>The orchestrator (generateWebsite) and the data file\<close>

datatype jobStatus = Pending | InProgress | Completed | Failed

record GenerationStatus =
  projectId :: string
  status :: jobStatus
  message :: string
  projectPath :: "string option"
  publicUrl :: "string option"
  liveUrl :: "string option"















section \<open>Properties of the intent analyzer\<close>

lemma startsWith_iff: "startsWith s t \<longleftrightarrow> (\<exists>post. s = t @ post)"
  by (induction s t rule: startsWith.induct) auto

lemma includesStr_iff: "includesStr s t \<longleftrightarrow> (\<exists>pre post. s = pre @ t @ post)"
proof (induction s)
  case Nil
  then show ?case by auto
next
  case (Cons c cs)
  show ?case
  proof
    assume "includesStr (c # cs) t"
    then consider "startsWith (c # cs) t" | "includesStr cs t" by auto
    then show "\<exists>pre post. c # cs = pre @ t @ post"
    proof cases
      case 1
      then obtain post where "c # cs = t @ post" by (auto simp: startsWith_iff)
      then have "c # cs = [] @ t @ post" by simp
      then show ?thesis by blast
    next
      case 2
      then obtain pre post where "cs = pre @ t @ post" using Cons.IH by auto
      then have "c # cs = (c # pre) @ t @ post" by simp
      then show ?thesis by blast
    qed
  next
    assume "\<exists>pre post. c # cs = pre @ t @ post"
    then obtain pre post where e: "c # cs = pre @ t @ post" by auto
    show "includesStr (c # cs) t"
    proof (cases pre)
      case Nil
      with e have "startsWith (c # cs) t" by (auto simp: startsWith_iff)
      then show ?thesis by simp
    next
      case (Cons p ps)
      with e have "cs = ps @ t @ post" by simp
      then have "includesStr cs t" using Cons.IH by blast
      then show ?thesis by simp
    qed
  qed
qed



lemma adjustLimit_100: "adjustLimit l 100 = 100"
  by (simp add: adjustLimit_def Let_def)

lemma fallback_limit: "limit (fallbackAnalysis u) = 100"
  by (simp add: fallbackAnalysis_def Let_def)

text \<open>
  Claim C3. When the parsed reply's \<open>limit\<close> field is not a number greater than 0 and at
  most 500 (absent, not a number, zero, negative or above 500), the limit of the returned
  analysis is exactly 100.
\<close>

theorem analyzeIntent_limit_default:
  assumes "\<forall>n. getProp parsed ''limit'' = Some (JNum n) \<longrightarrow> \<not> (0 < n \<and> n \<le> 500)"
  shows "limit (analyzeIntent userIntent (Inr parsed)) = 100"
proof (cases "parsed = JNull")
  case True
  then show ?thesis
    by (simp add: analyzeIntent_def analyzeParsed_def fallback_limit)
next
  case False
  have "parsedLimit (getProp parsed ''limit'') = 100"
    using assms by (auto simp: parsedLimit_def split: option.splits json.splits)
  with False show ?thesis
    by (simp add: analyzeIntent_def analyzeParsed_def Let_def adjustLimit_100)
qed

theorem analyzeIntent_limit_default_witness:
  "limit (analyzeIntent ''show me action movies'' (Inr (JObj [(''limit'', JNum 501)]))) = 100
   \<and> limit (analyzeIntent ''show me action movies'' (Inr (JObj [(''limit'', JNum 0)]))) = 100
   \<and> limit (analyzeIntent ''show me action movies'' (Inr (JObj [(''limit'', JStr ''25'')]))) = 100
   \<and> limit (analyzeIntent ''show me action movies'' (Inr (JObj []))) = 100"
  using analyzeIntent_limit_default [of "JObj [(''limit'', JNum 501)]" "''show me action movies''"]
        analyzeIntent_limit_default [of "JObj [(''limit'', JNum 0)]" "''show me action movies''"]
        analyzeIntent_limit_default [of "JObj [(''limit'', JStr ''25'')]" "''show me action movies''"]
        analyzeIntent_limit_default [of "JObj []" "''show me action movies''"]
  by simp




subsection \<open>The year of the heuristic fallback\<close>






























section \<open>Properties of the data-source verifier\<close>

lemma trim_part: "\<exists>pre post. s = pre @ trim s @ post"
proof -
  let ?u = "dropWhile isSpace s"
  have "rev (dropWhile isSpace (rev ?u)) @ rev (takeWhile isSpace (rev ?u))
          = rev (takeWhile isSpace (rev ?u) @ dropWhile isSpace (rev ?u))"
    by (simp only: rev_append)
  also have "\<dots> = rev (rev ?u)" by (simp only: takeWhile_dropWhile_id)
  finally have u: "?u = trim s @ rev (takeWhile isSpace (rev ?u))"
    by (simp add: trim_def)
  have "s = takeWhile isSpace s @ ?u" by simp
  with u have "s = takeWhile isSpace s @ trim s @ rev (takeWhile isSpace (rev ?u))" by simp
  then show ?thesis by blast
qed

lemma includesStr_trim:
  assumes "includesStr (toLowerCase (trim s)) t"
  shows "includesStr (toLowerCase s) t"
proof -
  obtain pre post where s: "s = pre @ trim s @ post" using trim_part by blast
  from assms obtain a b where "toLowerCase (trim s) = a @ t @ b"
    by (auto simp: includesStr_iff)
  then have "toLowerCase (pre @ trim s @ post)
               = (toLowerCase pre @ a) @ t @ (b @ toLowerCase post)"
    by (simp add: toLowerCase_def)
  with s have "toLowerCase s = (toLowerCase pre @ a) @ t @ (b @ toLowerCase post)" by simp
  then show ?thesis unfolding includesStr_iff by blast
qed

text \<open>
  Claim C6. When none of the collection names passed to the verifier occurs in the model's
  response text, compared without case (the caller passes the six known names), the
  originally detected source is returned unchanged; the same holds when the call throws.
\<close>

theorem verifyDataSource_keeps_source:
  assumes "\<forall>source \<in> set availableSources.
             \<not> includesStr (toLowerCase raw) (toLowerCase source)"
  shows "verifyDataSource detectedSource userIntent availableSources
           (Inr ((''text'', raw) # rest)) = detectedSource
         \<and> verifyDataSource detectedSource userIntent availableSources (Inl e) = detectedSource"
proof -
  have "filter (\<lambda>source. includesStr (toLowerCase (trim raw)) (toLowerCase source))
          availableSources = []"
    using assms by (auto simp: filter_empty_conv dest: includesStr_trim)
  then show ?thesis
    by (simp add: verifyDataSource_def responseText_def Let_def)
qed

theorem verifyDataSource_keeps_source_witness:
  "verifyDataSource ''movies'' ''show me films'' validSources
     (Inr [(''text'', ''  I am not sure, maybe books?  '')]) = ''movies''
   \<and> verifyDataSource ''movies'' ''show me films'' validSources (Inl CallError) = ''movies''"
proof -
  have "list_all (\<lambda>source. \<not> includesStr (toLowerCase ''  I am not sure, maybe books?  '')
                              (toLowerCase source)) validSources"
    by code_simp
  then have h: "\<forall>source \<in> set validSources.
      \<not> includesStr (toLowerCase ''  I am not sure, maybe books?  '') (toLowerCase source)"
    by (simp add: list_all_iff)
  show ?thesis
    using verifyDataSource_keeps_source [OF h, of "''movies''" "''show me films''" "[]" CallError]
    .
qed

section \<open>Properties of the dataset filter\<close>

lemma applyLimit_length:
  assumes "0 < n" and "applyLimit (Some (JNum n)) xs = Inr ys"
  shows "int (length ys) \<le> n"
  using assms by (auto simp: applyLimit_def slice0_def split: if_splits)

lemma slice0_length: "0 < n \<Longrightarrow> int (length (slice0 xs n)) \<le> n"
  by (simp add: slice0_def)

text \<open>
  Claim C10. With a positive numeric limit among the filters, every list \<open>filterData\<close>
  returns has at most \<open>limit\<close> records, on the path that returns the filtered records and on
  the zero-match path that returns unfiltered ones.
\<close>

theorem filterData_length_le_limit:
  assumes "map_of flt ''limit'' = Some (JNum n)" and "0 < n"
    and "filterData src flt root = Inr result"
  shows "int (length result) \<le> n"
proof -
  from assms(3) obtain allData matched filtered where
    l: "loadData src root = Inr allData"
    and a: "applyFilters src flt allData = Inr matched"
    and f: "applyLimit (Some (JNum n)) matched = Inr filtered"
    and r: "result = (if filtered = [] \<and> allData \<noteq> [] then slice0 allData n else filtered)"
    using assms(1,2)
    by (auto simp: filterData_def limitOr100_def split: sum.splits if_splits)
  show ?thesis
    using r applyLimit_length [OF assms(2) f] slice0_length [OF assms(2), of allData]
    by (simp split: if_splits)
qed

theorem filterData_length_le_limit_witness:
  "filterData ''movies'' [(''genre'', JStr ''ACTION''), (''limit'', JNum 1)] exampleRoot
     = Inr (take 1 exampleMovies)
   \<and> int (length (take 1 exampleMovies)) \<le> 1"
proof -
  have l: "map_of [(''genre'', JStr ''ACTION''), (''limit'', JNum 1)] ''limit'' = Some (JNum 1)"
    by simp
  have r: "filterData ''movies'' [(''genre'', JStr ''ACTION''), (''limit'', JNum 1)] exampleRoot
             = Inr (take 1 exampleMovies)"
    by code_simp
  have "int (length (take 1 exampleMovies)) \<le> 1"
    using filterData_length_le_limit [OF l _ r] by simp
  with r show ?thesis by simp
qed



section \<open>Properties of the architecture planner\<close>















section \<open>Properties of the deployer\<close>







lemma anchoredUrlAt_None: "baseUrlAt t = None \<Longrightarrow> anchoredUrlAt t = None"
  by (simp add: anchoredUrlAt_def)

lemma startsWithCI_parts:
  assumes "startsWithCI s k"
  shows "s = take (length k) s @ drop (length k) s" "length (take (length k) s) = length k"
    "toLowerCase (take (length k) s) = k"
  using assms by (simp_all add: startsWithCI_def)





lemma toLowerCase_Nil: "toLowerCase s = [] \<longleftrightarrow> s = []"
  by (simp add: toLowerCase_def)



















section \<open>Properties of the validator\<close>

lemma fixLoop_first_call_throws:
  assumes "fixOutcome env k = Inl e"
    and "\<exists>issue \<in> set found. \<exists>name. repairs names issue name"
  shows "fst (fixLoop env projectDir names found (k, fs, fixed)) \<noteq> None"
  using assms(2)
proof (induction found)
  case Nil
  then show ?case by simp
next
  case (Cons issue rest)
  show ?case
  proof (cases "\<exists>name. repairs names issue name")
    case True
    then obtain name where r: "repairs names issue name" by blast
    then show ?thesis using assms(1)
      by (auto simp: repairs_def split: option.splits json.splits)
  next
    case False
    with Cons.prems have "\<exists>issue \<in> set rest. \<exists>name. repairs names issue name" by auto
    then have ih: "fst (fixLoop env projectDir names rest (k, fs, fixed)) \<noteq> None"
      by (rule Cons.IH)
    from False have "issue = JNull \<or> getProp issue ''severity'' \<noteq> Some (JStr ''error'')
        \<or> (\<forall>name. getProp issue ''fileName'' = Some (JStr name) \<longrightarrow> name \<notin> set names)"
      by (auto simp: repairs_def)
    then show ?thesis using ih
      by (auto split: option.splits json.splits)
  qed
qed

lemma fixLoop_write_fails:
  assumes "\<exists>issue \<in> set found. \<exists>name. repairs names issue name
             \<and> writeFails env (pathJoin projectDir name)"
  shows "fst (fixLoop env projectDir names found st) \<noteq> None"
  using assms
proof (induction found arbitrary: st)
  case Nil
  then show ?case by simp
next
  case (Cons issue rest)
  obtain k fs fixed where st: "st = (k, fs, fixed)" by (cases st) auto
  show ?case
  proof (cases "\<exists>name. repairs names issue name \<and> writeFails env (pathJoin projectDir name)")
    case True
    then show ?thesis unfolding st
      by (auto simp: repairs_def split: option.splits json.splits sum.splits)
  next
    case False
    with Cons.prems have "\<exists>issue \<in> set rest. \<exists>name. repairs names issue name
             \<and> writeFails env (pathJoin projectDir name)" by auto
    then have ih: "fst (fixLoop env projectDir names rest st') \<noteq> None" for st'
      by (rule Cons.IH)
    show ?thesis unfolding st using ih
      by (auto split: option.splits json.splits sum.splits)
  qed
qed


text \<open>
  Claim C4. Whatever is thrown inside the validation step is swallowed and the no-issues
  result is returned: when the review call or the parse of its reply throws, when the reply
  is not an array, when the loop over the issues raises, and in particular when an issue
  is to be repaired and the first fix call throws or the write of the repaired file fails.
\<close>

theorem validate_swallows:
  "((\<exists>e. reviewOutcome env = Inl e)
      \<longrightarrow> fst (validateAndFixWebsite env projectDir generatedFiles fs) = noIssues)
   \<and> ((\<exists>v. reviewOutcome env = Inr v \<and> (\<forall>found. v \<noteq> JArr found))
      \<longrightarrow> fst (validateAndFixWebsite env projectDir generatedFiles fs) = noIssues)
   \<and> (\<forall>found. reviewOutcome env = Inr (JArr found)
         \<and> fst (fixLoop env projectDir (map fileName generatedFiles) found (0, fs, [])) \<noteq> None
      \<longrightarrow> fst (validateAndFixWebsite env projectDir generatedFiles fs) = noIssues)
   \<and> (\<forall>found. reviewOutcome env = Inr (JArr found)
         \<and> (\<exists>issue \<in> set found. \<exists>name. repairs (map fileName generatedFiles) issue name)
         \<and> (\<exists>e. fixOutcome env 0 = Inl e)
      \<longrightarrow> fst (validateAndFixWebsite env projectDir generatedFiles fs) = noIssues)
   \<and> (\<forall>found. reviewOutcome env = Inr (JArr found)
         \<and> (\<exists>issue \<in> set found. \<exists>name. repairs (map fileName generatedFiles) issue name
                \<and> writeFails env (pathJoin projectDir name))
      \<longrightarrow> fst (validateAndFixWebsite env projectDir generatedFiles fs) = noIssues)"
proof -
  let ?names = "map fileName generatedFiles"
  let ?V = "fst (validateAndFixWebsite env projectDir generatedFiles fs)"
  have raised: "?V = noIssues"
    if "reviewOutcome env = Inr (JArr found)"
      and "fst (fixLoop env projectDir ?names found (0, fs, [])) \<noteq> None" for found
    using that
    by (auto simp: validateAndFixWebsite_def split: prod.splits option.splits)
  have a: "(\<exists>e. reviewOutcome env = Inl e) \<longrightarrow> ?V = noIssues"
    by (auto simp: validateAndFixWebsite_def)
  have b: "(\<exists>v. reviewOutcome env = Inr v \<and> (\<forall>found. v \<noteq> JArr found)) \<longrightarrow> ?V = noIssues"
    by (auto simp: validateAndFixWebsite_def split: json.splits)
  have c: "\<forall>found. reviewOutcome env = Inr (JArr found)
         \<and> fst (fixLoop env projectDir ?names found (0, fs, [])) \<noteq> None \<longrightarrow> ?V = noIssues"
    using raised by blast
  have d: "\<forall>found. reviewOutcome env = Inr (JArr found)
         \<and> (\<exists>issue \<in> set found. \<exists>name. repairs ?names issue name)
         \<and> (\<exists>e. fixOutcome env 0 = Inl e) \<longrightarrow> ?V = noIssues"
    using raised fixLoop_first_call_throws by blast
  have e: "\<forall>found. reviewOutcome env = Inr (JArr found)
         \<and> (\<exists>issue \<in> set found. \<exists>name. repairs ?names issue name
                \<and> writeFails env (pathJoin projectDir name)) \<longrightarrow> ?V = noIssues"
    using raised fixLoop_write_fails by blast
  from a b c d e show ?thesis by blast
qed

theorem validate_swallows_witness:
  "fst (validateAndFixWebsite reviewThrows ''/sites/p1'' (files minimalPlan) Map.empty) = noIssues
   \<and> fst (validateAndFixWebsite fixThrows ''/sites/p1'' (files minimalPlan) Map.empty) = noIssues
   \<and> fst (validateAndFixWebsite writeThrows ''/sites/p1'' (files minimalPlan) Map.empty) = noIssues"
proof -
  have r: "repairs (map fileName (files minimalPlan)) exampleIssue ''app.js''"
    by (simp add: repairs_def exampleIssue_def minimalPlan_def)
  have h1: "\<exists>e. reviewOutcome reviewThrows = Inl e"
    by (simp add: reviewThrows_def)
  have h2: "reviewOutcome fixThrows = Inr (JArr [exampleIssue])
            \<and> (\<exists>issue \<in> set [exampleIssue]. \<exists>name.
                  repairs (map fileName (files minimalPlan)) issue name)
            \<and> (\<exists>e. fixOutcome fixThrows 0 = Inl e)"
    using r by (auto simp: fixThrows_def)
  have h3: "reviewOutcome writeThrows = Inr (JArr [exampleIssue])
            \<and> (\<exists>issue \<in> set [exampleIssue]. \<exists>name.
                  repairs (map fileName (files minimalPlan)) issue name
                  \<and> writeFails writeThrows (pathJoin ''/sites/p1'' name))"
    using r by (auto simp: writeThrows_def)
  from h1 validate_swallows [of reviewThrows "''/sites/p1''" "files minimalPlan" Map.empty]
  have a: "fst (validateAndFixWebsite reviewThrows ''/sites/p1'' (files minimalPlan) Map.empty)
             = noIssues"
    by blast
  from h2 validate_swallows [of fixThrows "''/sites/p1''" "files minimalPlan" Map.empty]
  have b: "fst (validateAndFixWebsite fixThrows ''/sites/p1'' (files minimalPlan) Map.empty)
             = noIssues"
    by blast
  from h3 validate_swallows [of writeThrows "''/sites/p1''" "files minimalPlan" Map.empty]
  have c: "fst (validateAndFixWebsite writeThrows ''/sites/p1'' (files minimalPlan) Map.empty)
             = noIssues"
    by blast
  from a b c show ?thesis by blast
qed

section \<open>The data file of a job\<close>













end
